theory Spec2Isabelle
  imports Complex_Main
begin

section \<open>Common vocabulary of the handlers\<close>

text \<open>
  A JavaScript error value carries a message and, for errors raised by the document
  store, a numeric code (11000 is the duplicate-key code tested in the category routes).
\<close>

record js_error =
  err_message :: string
  err_code :: "nat option"

text \<open>
  Every route answers with a JSON envelope. \<open>Success st body\<close> is
  \<open>res.status(st).json({success: true, ...body})\<close>; \<open>Failure st msg e\<close> is
  \<open>res.status(st).json({success: false, message: msg, error: e})\<close> where the
  \<open>error\<close> field is absent when \<open>e = None\<close>.
\<close>

datatype 'a response =
    Success nat 'a
  | Failure nat string "string option"

text \<open>
  An \<open>async\<close> handler either sends a response or its promise rejects with the error
  that escaped the handler (no response is written by the handler in that case).
\<close>

datatype 'a outcome =
    Responded "'a response"
  | Rejected js_error

text \<open>
  An optional string field of a request body or query: \<open>None\<close> is \<open>undefined\<close>.
  JavaScript truthiness of such a field: absent and the empty string are falsy.
\<close>

definition truthy_str :: "string option \<Rightarrow> bool" where
  "truthy_str v = (case v of None \<Rightarrow> False | Some s \<Rightarrow> s \<noteq> [])"

section \<open>middleware/auth.js: adminOnly\<close>

text \<open>
  \<open>req.user\<close> is attached by \<open>protect\<close> as \<open>{ id, role }\<close>; both fields come
  from the decoded token and may be missing there. A request that never went through
  \<open>protect\<close> has no \<open>user\<close> property.
\<close>

record req_user =
  user_id :: "string option"
  user_role :: "string option"

datatype mw_result =
    Next
  | Sent "unit response"
  | Threw js_error

text \<open>
  Reading a property of \<open>undefined\<close> throws a TypeError; reading it from an object
  yields the stored value.
\<close>

definition read_role :: "req_user option \<Rightarrow> js_error + string option" where
  "read_role u =
     (case u of
        None \<Rightarrow> Inl \<lparr>err_message = ''Cannot read properties of undefined (reading role)'',
                     err_code = None\<rparr>
      | Some usr \<Rightarrow> Inr (user_role usr))"

text \<open>
  \<^verbatim>\<open>if (req.user && req.user.role === 'admin') return next();
  return res.status(403).json({ success: false, message: 'Access denied: admin only' });\<close>
  The conjunction short-circuits: the role is only read when \<open>req.user\<close> is truthy.
\<close>

definition adminOnly :: "req_user option \<Rightarrow> mw_result" where
  "adminOnly u =
     (if u = None then Sent (Failure 403 ''Access denied: admin only'' None)
      else (case read_role u of
              Inl e \<Rightarrow> Threw e
            | Inr r \<Rightarrow>
                if r = Some ''admin'' then Next
                else Sent (Failure 403 ''Access denied: admin only'' None)))"

definition is_admin :: "req_user option \<Rightarrow> bool" where
  "is_admin u = (case u of None \<Rightarrow> False | Some usr \<Rightarrow> user_role usr = Some ''admin'')"

section \<open>models/model.js: price virtuals of the dress schema\<close>

text \<open>
  Prices are JavaScript numbers; the model uses exact rationals, which agree with the
  doubles on the whole-number and two-decimal prices used below. \<open>discounted\<close> is
  optional in the schema (\<open>None\<close> is \<open>undefined\<close>).
\<close>

record price =
  original :: rat
  discounted :: "rat option"

text \<open>Truthiness of an optional number: \<open>undefined\<close> and \<open>0\<close> are falsy.\<close>

definition truthy_num :: "rat option \<Rightarrow> bool" where
  "truthy_num v = (case v of None \<Rightarrow> False | Some x \<Rightarrow> x \<noteq> 0)"

text \<open>\<open>Math.round\<close> rounds to the nearest integer, halves upwards.\<close>

definition math_round :: "rat \<Rightarrow> int" where
  "math_round x = \<lfloor>x + 1 / 2\<rfloor>"

text \<open>
  \<^verbatim>\<open>if (this.price.discounted && this.price.original > 0) {
    return Math.round(((this.price.original - this.price.discounted) / this.price.original) * 100);
  }
  return 0;\<close>
\<close>

definition discountPercentage :: "price \<Rightarrow> int" where
  "discountPercentage p =
     (case discounted p of
        None \<Rightarrow> 0
      | Some d \<Rightarrow>
          if truthy_num (Some d) \<and> original p > 0
          then math_round (((original p - d) / original p) * 100)
          else 0)"

text \<open>\<^verbatim>\<open>return this.price.discounted || this.price.original;\<close>\<close>

definition effectivePrice :: "price \<Rightarrow> rat" where
  "effectivePrice p =
     (case discounted p of
        None \<Rightarrow> original p
      | Some d \<Rightarrow> if truthy_num (Some d) then d else original p)"

text \<open>
  The schema validators of \<open>price\<close>: \<open>original\<close> and \<open>discounted\<close> have
  \<open>min: 0\<close>, and the custom validator is \<open>!value || value <= this.price.original\<close>.
\<close>

definition price_valid :: "price \<Rightarrow> bool" where
  "price_valid p =
     (0 \<le> original p \<and>
      (case discounted p of
         None \<Rightarrow> True
       | Some d \<Rightarrow> 0 \<le> d \<and> (if truthy_num (Some d) then d \<le> original p else True)))"

section \<open>models/model.js: category schema and its slug hook\<close>

text \<open>
  Strings are lists of characters. The ASCII letters and digits are the only characters
  the slug expression \<open>/[^a-zA-Z0-9]/\<close> keeps; every other character (including each
  unit of a non-ASCII letter) is replaced by a hyphen. \<open>toLowerCase\<close> is modelled on
  the ASCII letters. (Two letters outside ASCII, the Kelvin sign and the dotted capital
  I, lower-case to an ASCII letter; there the code keeps a lowercase letter where the
  model writes a hyphen.) The schema trims the name before the hook reads it; the hook
  is modelled on the name as stored.
\<close>

definition is_upper :: "char \<Rightarrow> bool" where
  "is_upper c = (65 \<le> (of_char c :: nat) \<and> (of_char c :: nat) \<le> 90)"

definition is_lower :: "char \<Rightarrow> bool" where
  "is_lower c = (97 \<le> (of_char c :: nat) \<and> (of_char c :: nat) \<le> 122)"

definition is_digit :: "char \<Rightarrow> bool" where
  "is_digit c = (48 \<le> (of_char c :: nat) \<and> (of_char c :: nat) \<le> 57)"

definition to_lower_char :: "char \<Rightarrow> char" where
  "to_lower_char c = (if is_upper c then char_of ((of_char c :: nat) + 32) else c)"

definition toLowerCase :: "string \<Rightarrow> string" where
  "toLowerCase s = map to_lower_char s"

text \<open>\<^verbatim>\<open>.replace(/[^a-zA-Z0-9]/g, '-')\<close>\<close>

definition replace_non_alnum :: "string \<Rightarrow> string" where
  "replace_non_alnum s =
     map (\<lambda>c. if is_lower c \<or> is_upper c \<or> is_digit c then c else CHR ''-'') s"

text \<open>\<^verbatim>\<open>.replace(/-+/g, '-')\<close>: every maximal run of hyphens becomes one hyphen.\<close>

fun collapse_hyphens :: "string \<Rightarrow> string" where
  "collapse_hyphens (a # b # cs) =
     (if a = CHR ''-'' \<and> b = CHR ''-'' then collapse_hyphens (b # cs)
      else a # collapse_hyphens (b # cs))"
| "collapse_hyphens cs = cs"

text \<open>
  \<^verbatim>\<open>.replace(/^-|-$/g, '')\<close>: the scan removes a hyphen at the start, then a hyphen
  at the end of what follows.
\<close>

definition strip_leading_hyphen :: "string \<Rightarrow> string" where
  "strip_leading_hyphen s = (case s of [] \<Rightarrow> [] | c # cs \<Rightarrow> if c = CHR ''-'' then cs else s)"

definition strip_trailing_hyphen :: "string \<Rightarrow> string" where
  "strip_trailing_hyphen s = (if s \<noteq> [] \<and> last s = CHR ''-'' then butlast s else s)"

definition strip_edge_hyphens :: "string \<Rightarrow> string" where
  "strip_edge_hyphens s = strip_trailing_hyphen (strip_leading_hyphen s)"

definition slugify :: "string \<Rightarrow> string" where
  "slugify name = strip_edge_hyphens (collapse_hyphens (replace_non_alnum (toLowerCase name)))"

text \<open>The shape of a slug: its alphabet, doubled hyphens, hyphens at either end.\<close>

definition slug_char :: "char \<Rightarrow> bool" where
  "slug_char c = (is_lower c \<or> is_digit c \<or> c = CHR ''-'')"

fun has_double_hyphen :: "string \<Rightarrow> bool" where
  "has_double_hyphen (a # b # cs) =
     ((a = CHR ''-'' \<and> b = CHR ''-'') \<or> has_double_hyphen (b # cs))"
| "has_double_hyphen cs = False"

definition starts_with_hyphen :: "string \<Rightarrow> bool" where
  "starts_with_hyphen s = (case s of [] \<Rightarrow> False | c # cs \<Rightarrow> c = CHR ''-'')"

definition ends_with_hyphen :: "string \<Rightarrow> bool" where
  "ends_with_hyphen s = (s \<noteq> [] \<and> last s = CHR ''-'')"

record category =
  cat_id :: string
  cat_name :: string
  cat_description :: "string option"
  image_url :: string
  image_public_id :: string
  slug :: string
  cat_isActive :: bool
  cat_sortOrder :: int

text \<open>
  \<open>this.isModified('name')\<close>: true for a new document (\<open>stored = None\<close>) and for a
  loaded document whose name differs from the stored one.
\<close>

definition isModified_name :: "category option \<Rightarrow> category \<Rightarrow> bool" where
  "isModified_name stored doc =
     (case stored of None \<Rightarrow> True | Some old \<Rightarrow> cat_name old \<noteq> cat_name doc)"

text \<open>
  The pre-save hook. The schema declares \<open>slug\<close> with \<open>lowercase: true\<close>, so the
  assignment passes the value through \<open>toLowerCase\<close> once more.
\<close>

definition category_pre_save :: "category option \<Rightarrow> category \<Rightarrow> category" where
  "category_pre_save stored doc =
     (if isModified_name stored doc
      then doc\<lparr>slug := toLowerCase (slugify (cat_name doc))\<rparr>
      else doc)"

section \<open>routes/auth.js: login\<close>

text \<open>
  The user model is not part of these sources; the handler uses it through
  \<open>User.findOne({ email })\<close>, \<open>user.matchPassword(password)\<close> and the token signer.
  Each is a parameter, and each may throw.
\<close>

record user =
  usr_id :: string
  usr_username :: string
  usr_email :: string
  usr_role :: string

record login_env =
  findOne_email :: "string \<Rightarrow> js_error + user option"
  matchPassword :: "user \<Rightarrow> string \<Rightarrow> js_error + bool"
  jwt_sign :: "string \<Rightarrow> string \<Rightarrow> js_error + string"

record login_body =
  token :: string
  logged_in :: user

definition login :: "login_env \<Rightarrow> string option \<Rightarrow> string option \<Rightarrow> login_body outcome" where
  "login env email password =
     (case (email, password) of
        (Some e, Some p) \<Rightarrow>
          if e = [] \<or> p = []
          then Responded (Failure 400 ''Please provide email and password'' None)
          else (case findOne_email env e of
                  Inl err \<Rightarrow>
                    Responded (Failure 500 ''Server error while logging in'' (Some (err_message err)))
                | Inr None \<Rightarrow> Responded (Failure 401 ''Invalid credentials'' None)
                | Inr (Some u) \<Rightarrow>
                    (case matchPassword env u p of
                       Inl err \<Rightarrow>
                         Responded (Failure 500 ''Server error while logging in''
                           (Some (err_message err)))
                     | Inr False \<Rightarrow> Responded (Failure 401 ''Invalid credentials'' None)
                     | Inr True \<Rightarrow>
                         (case jwt_sign env (usr_id u) (usr_role u) of
                            Inl err \<Rightarrow>
                              Responded (Failure 500 ''Server error while logging in''
                                (Some (err_message err)))
                          | Inr t \<Rightarrow> Responded (Success 200 \<lparr>token = t, logged_in = u\<rparr>))))
      | _ \<Rightarrow> Responded (Failure 400 ''Please provide email and password'' None))"

section \<open>Documents, the store and the asset host\<close>

record image =
  img_url :: string
  img_public_id :: string
  img_alt :: string

record size_entry =
  size_name :: string
  size_available :: bool
  size_stock :: int

record color_entry =
  color_name :: string
  color_code :: string
  color_available :: bool

text \<open>
  The dress document with the fields the routes read or assign. The SKU hook and the
  rating sub-document are left out: no route below reads them.
\<close>

record dress =
  dress_id :: string
  dress_name :: string
  dress_description :: string
  dress_category :: string
  images :: "image list"
  dress_price :: price
  sizes :: "size_entry list"
  colors :: "color_entry list"
  material :: "string option"
  careInstructions :: "string option"
  tags :: "string list"
  isActive :: bool
  isFeatured :: bool
  sortOrder :: int
  whatsappNumber :: string
  views :: int

text \<open>
  The state the handlers act on: the two collections, the public ids for which
  \<open>cloudinary.uploader.destroy\<close> has been called (in call order), and the lines written
  with \<open>console.error\<close>.
\<close>

record world =
  categories :: "category list"
  dresses :: "dress list"
  destroy_calls :: "string list"
  console_errors :: "string list"

text \<open>The orderings the routes ask the store for.\<close>

datatype sort_spec =
    CreatedDesc | CreatedAsc | PriceAsc | PriceDesc | NameAsc | NameDesc
  | FeaturedFirst | TextScore

text \<open>
  What the external services answer. \<open>None\<close> means the call succeeds; \<open>Some e\<close>
  means its promise rejects with \<open>e\<close>. \<open>fresh_id\<close> is the id a new document gets,
  \<open>apply_sort\<close> is the store's ordering of a result, and \<open>nan_page\<close> is what the
  store answers to a query whose limit or skip is \<open>NaN\<close>.
\<close>

record env =
  cloud_destroy :: "string \<Rightarrow> js_error option"
  category_save :: "category \<Rightarrow> js_error option"
  dress_save :: "dress \<Rightarrow> js_error option"
  views_inc :: "string \<Rightarrow> js_error option"
  fresh_id :: string
  apply_sort :: "sort_spec \<Rightarrow> dress list \<Rightarrow> dress list"
  nan_page :: "dress list \<Rightarrow> js_error + dress list"

text \<open>
  Reads of the store succeed, except that a condition on \<open>_id\<close> or on the
  \<open>category\<close> reference is cast to an ObjectId before the query runs; a string that
  is not 24 hexadecimal digits makes the query reject with a CastError (its message is
  abbreviated here). The test is the one \<open>GET /category/:identifier\<close> writes out:
  \<open>/^[0-9a-fA-F]{24}$/\<close>. Older drivers also accept a string of length 12; no
  identifier used below has that length.
\<close>

definition is_hex :: "char \<Rightarrow> bool" where
  "is_hex c =
     (is_digit c \<or> (97 \<le> (of_char c :: nat) \<and> (of_char c :: nat) \<le> 102)
      \<or> (65 \<le> (of_char c :: nat) \<and> (of_char c :: nat) \<le> 70))"

definition isObjectId :: "string \<Rightarrow> bool" where
  "isObjectId s = (length s = 24 \<and> list_all is_hex s)"

definition cast_error :: "string \<Rightarrow> string \<Rightarrow> js_error" where
  "cast_error path v =
     \<lparr>err_message = ''Cast to ObjectId failed for value '' @ v @ '' at path '' @ path,
      err_code = None\<rparr>"

section \<open>middleware/upload.js: deleting assets\<close>

text \<open>
  \<^verbatim>\<open>try { const result = await cloudinary.uploader.destroy(publicId); return result; }
  catch (error) { console.error('Error deleting from Cloudinary:', error); throw error; }\<close>
  The helper logs a failure and throws it again.
\<close>

definition deleteFromCloudinary :: "env \<Rightarrow> world \<Rightarrow> string \<Rightarrow> world \<times> (js_error + unit)" where
  "deleteFromCloudinary ev w publicId =
     (let w1 = w\<lparr>destroy_calls := destroy_calls w @ [publicId]\<rparr>
      in case cloud_destroy ev publicId of
           None \<Rightarrow> (w1, Inr ())
         | Some e \<Rightarrow>
             (w1\<lparr>console_errors := console_errors w1 @
                    [''Error deleting from Cloudinary: '' @ err_message e]\<rparr>,
              Inl e))"

text \<open>
  \<^verbatim>\<open>if (!publicIds || publicIds.length === 0) return null;
  const deletePromises = publicIds.map((publicId) => cloudinary.uploader.destroy(publicId));
  const results = await Promise.all(deletePromises);\<close>
  Every destroy call is issued; \<open>Promise.all\<close> rejects with a rejection of one of
  them (the first in list order here), which is logged and thrown again.
\<close>

definition first_failure :: "env \<Rightarrow> string list \<Rightarrow> js_error option" where
  "first_failure ev publicIds =
     (case List.find (\<lambda>i. cloud_destroy ev i \<noteq> None) publicIds of
        None \<Rightarrow> None
      | Some i \<Rightarrow> cloud_destroy ev i)"

definition deleteMultipleFromCloudinary ::
  "env \<Rightarrow> world \<Rightarrow> string list \<Rightarrow> world \<times> (js_error + unit)" where
  "deleteMultipleFromCloudinary ev w publicIds =
     (if publicIds = [] then (w, Inr ())
      else
        (let w1 = w\<lparr>destroy_calls := destroy_calls w @ publicIds\<rparr>
         in case first_failure ev publicIds of
              None \<Rightarrow> (w1, Inr ())
            | Some e \<Rightarrow>
                (w1\<lparr>console_errors := console_errors w1 @
                       [''Error deleting multiple images from Cloudinary: '' @ err_message e]\<rparr>,
                 Inl e)))"

section \<open>routes/routes.js: category routes\<close>

text \<open>
  \<open>GET /category/:identifier\<close>: the identifier is tested against the ObjectId
  pattern first and only then used as an id or as a slug.
\<close>

definition get_category :: "world \<Rightarrow> string \<Rightarrow> category outcome" where
  "get_category w identifier =
     (let matches = (if isObjectId identifier
                     then (\<lambda>c. cat_id c = toLowerCase identifier)
                     else (\<lambda>c. slug c = identifier))
      in case List.find (\<lambda>c. matches c \<and> cat_isActive c) (categories w) of
           None \<Rightarrow> Responded (Failure 404 ''Category not found'' None)
         | Some c \<Rightarrow> Responded (Success 200 c))"

record category_body =
  cb_name :: "string option"
  cb_description :: "string option"
  cb_sortOrder :: "int option"
  cb_imageUrl :: "string option"
  cb_public_id :: "string option"

text \<open>
  \<open>category.save()\<close>: the store (validation, unique indexes, the connection) may
  reject; otherwise the pre-save hook runs and the document is inserted.
\<close>

definition save_new_category :: "env \<Rightarrow> world \<Rightarrow> category \<Rightarrow> js_error + (world \<times> category)" where
  "save_new_category ev w doc =
     (case category_save ev doc of
        Some e \<Rightarrow> Inl e
      | None \<Rightarrow>
          (let saved = category_pre_save None doc
           in Inr (w\<lparr>categories := categories w @ [saved]\<rparr>, saved)))"

text \<open>
  \<open>POST /category\<close>. In the \<open>catch\<close> block the compensating
  \<open>await deleteFromCloudinary(req.body.public_id)\<close> stands before the response is
  written and is not guarded: when it throws, the handler's promise rejects and neither
  response of the \<open>catch\<close> block is sent. (Its condition \<open>req.body.public_id\<close> holds
  whenever \<open>save\<close> was reached.)
\<close>

definition post_category :: "env \<Rightarrow> world \<Rightarrow> category_body \<Rightarrow> world \<times> category outcome" where
  "post_category ev w body =
     (case (cb_imageUrl body, cb_public_id body) of
        (Some url, Some pid) \<Rightarrow>
          if url = [] \<or> pid = []
          then (w, Responded (Failure 400 ''imageUrl and public_id are required'' None))
          else
            (let doc = \<lparr>cat_id = fresh_id ev,
                        cat_name = (case cb_name body of None \<Rightarrow> [] | Some n \<Rightarrow> n),
                        cat_description = cb_description body,
                        image_url = url, image_public_id = pid, slug = [],
                        cat_isActive = True,
                        cat_sortOrder = (case cb_sortOrder body of None \<Rightarrow> 0 | Some n \<Rightarrow> n)\<rparr>
             in case save_new_category ev w doc of
                  Inr (w1, saved) \<Rightarrow> (w1, Responded (Success 201 saved))
                | Inl err \<Rightarrow>
                    (case deleteFromCloudinary ev w pid of
                       (w1, Inl e2) \<Rightarrow> (w1, Rejected e2)
                     | (w1, Inr u) \<Rightarrow>
                         if err_code err = Some 11000
                         then (w1, Responded (Failure 400 ''Category name already exists'' None))
                         else (w1, Responded (Failure 500 ''Error creating category''
                                 (Some (err_message err))))))
      | _ \<Rightarrow> (w, Responded (Failure 400 ''imageUrl and public_id are required'' None)))"

section \<open>Regular expressions built from request text\<close>

text \<open>
  The routes build \<open>new RegExp(text, 'i')\<close> from query text as it arrives. The fragment
  modelled here: a pattern made of ordinary characters and the dot compiles to a
  sequence of atoms; a pattern with an opening parenthesis and no closing one (and no
  backslash or class) is a SyntaxError, thrown by the constructor; every other pattern
  is outside the fragment (\<open>Unmodelled\<close>).
\<close>

datatype rx_atom = Lit char | AnyChar

datatype rx_compiled = Pattern "rx_atom list" | RxThrows js_error | Unmodelled

definition is_meta :: "char \<Rightarrow> bool" where
  "is_meta c =
     (c \<in> set [CHR ''^'', CHR ''$'', CHR ''.'', CHR ''*'', CHR ''+'', CHR ''?'', CHR ''('',
               CHR '')'', CHR ''['', CHR '']'', CHR ''{'', CHR ''}'', CHR ''|'', CHR 0x5C])"

definition is_plain :: "char \<Rightarrow> bool" where
  "is_plain c = (if is_meta c then False else True)"

definition new_RegExp :: "string \<Rightarrow> rx_compiled" where
  "new_RegExp q =
     (if list_all (\<lambda>c. c = CHR ''.'' \<or> is_plain c) q
      then Pattern (map (\<lambda>c. if c = CHR ''.'' then AnyChar else Lit c) q)
      else if CHR ''('' \<in> set q \<and>
              list_all (\<lambda>c. c \<notin> set [CHR '')'', CHR ''['', CHR 0x5C]) q
      then RxThrows \<lparr>err_message = ''Invalid regular expression: Unterminated group'',
                     err_code = None\<rparr>
      else Unmodelled)"

text \<open>
  With the \<open>i\<close> flag a literal matches a character of the same letter in either case;
  the dot matches every character but a line terminator.
\<close>

definition atom_matches :: "rx_atom \<Rightarrow> char \<Rightarrow> bool" where
  "atom_matches a c =
     (case a of
        Lit l \<Rightarrow> to_lower_char l = to_lower_char c
      | AnyChar \<Rightarrow> (of_char c :: nat) \<noteq> 10 \<and> (of_char c :: nat) \<noteq> 13)"

fun matches_here :: "rx_atom list \<Rightarrow> string \<Rightarrow> bool" where
  "matches_here [] s = True"
| "matches_here (a # as) [] = False"
| "matches_here (a # as) (c # cs) = (atom_matches a c \<and> matches_here as cs)"

text \<open>\<open>regex.test(s)\<close>: the pattern is not anchored, so it may match at any position.\<close>

fun rx_test :: "rx_atom list \<Rightarrow> string \<Rightarrow> bool" where
  "rx_test as [] = matches_here as []"
| "rx_test as (c # cs) = (matches_here as (c # cs) \<or> rx_test as cs)"

text \<open>
  The reading of the search contract: the query, as plain text, occurs in the field when
  letter case is ignored.
\<close>

fun starts_with :: "string \<Rightarrow> string \<Rightarrow> bool" where
  "starts_with [] s = True"
| "starts_with (a # as) [] = False"
| "starts_with (a # as) (c # cs) = (a = c \<and> starts_with as cs)"

fun occurs_in :: "string \<Rightarrow> string \<Rightarrow> bool" where
  "occurs_in q [] = starts_with q []"
| "occurs_in q (c # cs) = (starts_with q (c # cs) \<or> occurs_in q cs)"

definition spec_ci_substring :: "string \<Rightarrow> string \<Rightarrow> bool" where
  "spec_ci_substring q s = occurs_in (toLowerCase q) (toLowerCase s)"

section \<open>Pagination arithmetic\<close>

text \<open>
  \<open>parseInt(text)\<close>: leading white space is skipped, a sign is read, a \<open>0x\<close> prefix
  selects radix 16, and the longest run of digits is the value; with no digit the
  result is \<open>NaN\<close>, which is \<open>None\<close> here. Integers are exact.
\<close>

definition is_space :: "char \<Rightarrow> bool" where
  "is_space c = ((of_char c :: nat) = 32 \<or> (9 \<le> (of_char c :: nat) \<and> (of_char c :: nat) \<le> 13))"

definition digit_val :: "char \<Rightarrow> nat option" where
  "digit_val c =
     (let n = (of_char c :: nat)
      in if 48 \<le> n \<and> n \<le> 57 then Some (n - 48)
         else if 97 \<le> n \<and> n \<le> 122 then Some (n - 87)
         else if 65 \<le> n \<and> n \<le> 90 then Some (n - 55)
         else None)"

definition radix_digit :: "nat \<Rightarrow> char \<Rightarrow> bool" where
  "radix_digit r c = (case digit_val c of None \<Rightarrow> False | Some v \<Rightarrow> v < r)"

definition digits_value :: "nat \<Rightarrow> string \<Rightarrow> nat" where
  "digits_value r ds =
     foldl (\<lambda>acc c. case digit_val c of None \<Rightarrow> acc | Some v \<Rightarrow> acc * r + v) 0 ds"

definition parseInt :: "string \<Rightarrow> int option" where
  "parseInt s =
     (let t = dropWhile is_space s;
          neg = (case t of [] \<Rightarrow> False | c # cs \<Rightarrow> c = CHR ''-'');
          t1 = (case t of [] \<Rightarrow> [] | c # cs \<Rightarrow> if c = CHR ''-'' \<or> c = CHR ''+'' then cs else t);
          hex = (take 2 t1 = ''0x'' \<or> take 2 t1 = ''0X'');
          r = (if hex then 16 else 10);
          t2 = (if hex then drop 2 t1 else t1);
          ds = takeWhile (radix_digit r) t2
      in if ds = [] then None
         else Some ((if neg then - 1 else 1) * int (digits_value r ds)))"

text \<open>
  A query parameter with a default (\<open>page = 1\<close>, \<open>limit = 12\<close> in the destructuring):
  the default is used when the parameter is absent.
\<close>

definition query_int :: "int \<Rightarrow> string option \<Rightarrow> int option" where
  "query_int dflt v = (case v of None \<Rightarrow> Some dflt | Some s \<Rightarrow> parseInt s)"

text \<open>\<open>Math.max\<close> and \<open>Math.min\<close> return \<open>NaN\<close> as soon as an argument is \<open>NaN\<close>.\<close>

definition math_max :: "int \<Rightarrow> int option \<Rightarrow> int option" where
  "math_max a x = (case x of None \<Rightarrow> None | Some n \<Rightarrow> Some (max a n))"

definition math_min :: "int \<Rightarrow> int option \<Rightarrow> int option" where
  "math_min a x = (case x of None \<Rightarrow> None | Some n \<Rightarrow> Some (min a n))"

record paging =
  pageNum :: "int option"
  limitNum :: "int option"
  skip :: "int option"

text \<open>
  \<^verbatim>\<open>const pageNum = Math.max(1, parseInt(page));
  const limitNum = Math.max(1, Math.min(50, parseInt(limit)));
  const skip = (pageNum - 1) * limitNum;\<close>
\<close>

definition pagination :: "string option \<Rightarrow> string option \<Rightarrow> paging" where
  "pagination page limit =
     (let pn = math_max 1 (query_int 1 page);
          lnum = math_max 1 (math_min 50 (query_int 12 limit))
      in \<lparr>pageNum = pn, limitNum = lnum,
          skip = (case (pn, lnum) of (Some p, Some l) \<Rightarrow> Some ((p - 1) * l) | _ \<Rightarrow> None)\<rparr>)"

text \<open>\<open>Math.ceil(total / limitNum)\<close>; \<open>NaN\<close> when the limit is \<open>NaN\<close>.\<close>

definition page_count :: "nat \<Rightarrow> int option \<Rightarrow> int option" where
  "page_count n lnum =
     (case lnum of
        None \<Rightarrow> None
      | Some l \<Rightarrow> if l = 0 then None else Some \<lceil>(of_nat n :: rat) / of_int l\<rceil>)"

section \<open>routes/routes.js: reading dresses\<close>

definition nonempty :: "string option \<Rightarrow> string option" where
  "nonempty v = (case v of None \<Rightarrow> None | Some t \<Rightarrow> if t = [] then None else Some t)"

text \<open>The three \<open>sortOptions\<close> tables; an unknown key falls back to newest first.\<close>

definition list_sort :: "string option \<Rightarrow> sort_spec" where
  "list_sort v =
     (case v of
        None \<Rightarrow> CreatedDesc
      | Some k \<Rightarrow>
          if k = ''-createdAt'' then CreatedDesc
          else if k = ''createdAt'' then CreatedAsc
          else if k = ''price'' then PriceAsc
          else if k = ''-price'' then PriceDesc
          else if k = ''name'' then NameAsc
          else if k = ''-name'' then NameDesc
          else if k = ''featured'' then FeaturedFirst
          else CreatedDesc)"

definition category_sort :: "string option \<Rightarrow> sort_spec" where
  "category_sort v =
     (case v of
        None \<Rightarrow> CreatedDesc
      | Some k \<Rightarrow>
          if k = ''-createdAt'' then CreatedDesc
          else if k = ''createdAt'' then CreatedAsc
          else if k = ''price'' then PriceAsc
          else if k = ''-price'' then PriceDesc
          else if k = ''name'' then NameAsc
          else if k = ''featured'' then FeaturedFirst
          else CreatedDesc)"

definition search_sort :: "string option \<Rightarrow> sort_spec" where
  "search_sort v =
     (case v of
        None \<Rightarrow> CreatedDesc
      | Some k \<Rightarrow>
          if k = ''-createdAt'' then CreatedDesc
          else if k = ''createdAt'' then CreatedAsc
          else if k = ''price'' then PriceAsc
          else if k = ''-price'' then PriceDesc
          else if k = ''name'' then NameAsc
          else if k = ''relevance'' then TextScore
          else CreatedDesc)"

text \<open>\<open>Dress.find(filter).sort(...).limit(limitNum).skip(skip)\<close> on the matching documents.\<close>

definition find_page :: "env \<Rightarrow> sort_spec \<Rightarrow> dress list \<Rightarrow> paging \<Rightarrow> js_error + dress list" where
  "find_page ev srt matching pg =
     (case (limitNum pg, skip pg) of
        (Some l, Some k) \<Rightarrow> Inr (take (nat l) (drop (nat k) (apply_sort ev srt matching)))
      | _ \<Rightarrow> nan_page ev matching)"

record 'x page_body =
  pb_info :: 'x
  pb_count :: nat
  pb_total :: nat
  pb_page :: "int option"
  pb_pages :: "int option"
  pb_data :: "dress list"

definition page_response ::
  "env \<Rightarrow> string \<Rightarrow> 'x \<Rightarrow> sort_spec \<Rightarrow> dress list \<Rightarrow> paging \<Rightarrow> 'x page_body outcome" where
  "page_response ev failure_message info srt matching pg =
     (case find_page ev srt matching pg of
        Inl e \<Rightarrow> Responded (Failure 500 failure_message (Some (err_message e)))
      | Inr ds \<Rightarrow>
          Responded (Success 200
            \<lparr>pb_info = info, pb_count = length ds, pb_total = length matching,
             pb_page = pageNum pg, pb_pages = page_count (length matching) (limitNum pg),
             pb_data = ds\<rparr>))"

text \<open>
  A query parameter turned into a regular expression when it is truthy. \<open>Go None\<close>: no
  condition; \<open>Stop e\<close>: the constructor threw; \<open>Outside\<close>: the pattern is outside the
  modelled fragment.
\<close>

datatype 'a step = Go 'a | Stop js_error | Outside

definition compile_param :: "string option \<Rightarrow> (rx_atom list option) step" where
  "compile_param v =
     (case nonempty v of
        None \<Rightarrow> Go None
      | Some t \<Rightarrow>
          (case new_RegExp t of
             Pattern p \<Rightarrow> Go (Some p)
           | RxThrows e \<Rightarrow> Stop e
           | Unmodelled \<Rightarrow> Outside))"

text \<open>
  \<open>GET /dresses\<close>. Price bounds are given as the numbers \<open>Number(minPrice)\<close> and
  \<open>Number(maxPrice)\<close> yield.
\<close>

record list_query =
  lq_category :: "string option"
  lq_featured :: "string option"
  lq_minPrice :: "rat option"
  lq_maxPrice :: "rat option"
  lq_size :: "string option"
  lq_color :: "string option"
  lq_material :: "string option"
  lq_sort :: "string option"
  lq_page :: "string option"
  lq_limit :: "string option"

definition price_in_range :: "rat option \<Rightarrow> rat option \<Rightarrow> dress \<Rightarrow> bool" where
  "price_in_range lo hi d =
     ((case lo of None \<Rightarrow> True | Some l \<Rightarrow> l \<le> original (dress_price d)) \<and>
      (case hi of None \<Rightarrow> True | Some h \<Rightarrow> original (dress_price d) \<le> h))"

definition in_category :: "string option \<Rightarrow> dress \<Rightarrow> bool" where
  "in_category c d =
     (case nonempty c of None \<Rightarrow> True | Some i \<Rightarrow> dress_category d = toLowerCase i)"

definition list_filter ::
  "list_query \<Rightarrow> rx_atom list option \<Rightarrow> rx_atom list option \<Rightarrow> dress \<Rightarrow> bool" where
  "list_filter q color_rx material_rx d =
     (isActive d \<and> in_category (lq_category q) d \<and>
      (if lq_featured q = Some ''true'' then isFeatured d else True) \<and>
      (case nonempty (lq_size q) of
         None \<Rightarrow> True
       | Some z \<Rightarrow> list_ex (\<lambda>e. size_name e = z) (sizes d)) \<and>
      (case color_rx of
         None \<Rightarrow> True
       | Some r \<Rightarrow> list_ex (\<lambda>c. rx_test r (color_name c)) (colors d)) \<and>
      (case material_rx of
         None \<Rightarrow> True
       | Some r \<Rightarrow> (case material d of None \<Rightarrow> False | Some m \<Rightarrow> rx_test r m)) \<and>
      price_in_range (lq_minPrice q) (lq_maxPrice q) d)"

definition category_castable :: "string option \<Rightarrow> bool" where
  "category_castable c = (case nonempty c of None \<Rightarrow> True | Some i \<Rightarrow> isObjectId i)"

definition list_dresses :: "env \<Rightarrow> world \<Rightarrow> list_query \<Rightarrow> unit page_body outcome option" where
  "list_dresses ev w q =
     (case compile_param (lq_color q) of
        Outside \<Rightarrow> None
      | Stop e \<Rightarrow> Some (Responded (Failure 500 ''Error fetching dresses'' (Some (err_message e))))
      | Go color_rx \<Rightarrow>
          (case compile_param (lq_material q) of
             Outside \<Rightarrow> None
           | Stop e \<Rightarrow>
               Some (Responded (Failure 500 ''Error fetching dresses'' (Some (err_message e))))
           | Go material_rx \<Rightarrow>
               Some
                 (if category_castable (lq_category q)
                  then page_response ev ''Error fetching dresses'' ()
                         (list_sort (lq_sort q))
                         (filter (list_filter q color_rx material_rx) (dresses w))
                         (pagination (lq_page q) (lq_limit q))
                  else Responded (Failure 500 ''Error fetching dresses''
                         (Some (err_message
                            (cast_error ''category'' (case lq_category q of None \<Rightarrow> [] | Some i \<Rightarrow> i))))))))"

text \<open>
  \<open>GET /dresses/category/:categoryId\<close>. The parameter goes into
  \<open>{ $or: [{ _id: categoryId }, { slug: categoryId }], isActive: true }\<close> as it is, so the
  \<open>_id\<close> branch is cast for every parameter, slug or not.
\<close>

definition get_dresses_by_category ::
  "env \<Rightarrow> world \<Rightarrow> string \<Rightarrow> string option \<Rightarrow> string option \<Rightarrow> string option \<Rightarrow>
   (string \<times> string \<times> string) page_body outcome" where
  "get_dresses_by_category ev w categoryId srt page limit =
     (if isObjectId categoryId
      then
        (case List.find
                (\<lambda>c. (cat_id c = toLowerCase categoryId \<or> slug c = categoryId) \<and> cat_isActive c)
                (categories w) of
           None \<Rightarrow> Responded (Failure 404 ''Category not found'' None)
         | Some c \<Rightarrow>
             page_response ev ''Error fetching dresses by category''
               (cat_id c, cat_name c, slug c) (category_sort srt)
               (filter (\<lambda>d. dress_category d = cat_id c \<and> isActive d) (dresses w))
               (pagination page limit))
      else Responded (Failure 500 ''Error fetching dresses by category''
             (Some (err_message (cast_error ''_id'' categoryId)))))"

text \<open>
  \<open>GET /dress/:id\<close>. The update of the view counter is awaited inside the \<open>try\<close>
  block, before the response is written.
\<close>

fun inc_views :: "string \<Rightarrow> dress list \<Rightarrow> dress list" where
  "inc_views i [] = []"
| "inc_views i (d # ds) =
     (if dress_id d = i then d\<lparr>views := views d + 1\<rparr> # ds else d # inc_views i ds)"

definition get_dress :: "env \<Rightarrow> world \<Rightarrow> string \<Rightarrow> world \<times> dress outcome" where
  "get_dress ev w i =
     (if isObjectId i
      then
        (case List.find (\<lambda>d. dress_id d = toLowerCase i \<and> isActive d) (dresses w) of
           None \<Rightarrow> (w, Responded (Failure 404 ''Dress not found'' None))
         | Some d \<Rightarrow>
             (case views_inc ev i of
                Some e \<Rightarrow>
                  (w, Responded (Failure 500 ''Error fetching dress'' (Some (err_message e))))
              | None \<Rightarrow>
                  (w\<lparr>dresses := inc_views (toLowerCase i) (dresses w)\<rparr>,
                   Responded (Success 200 d))))
      else (w, Responded (Failure 500 ''Error fetching dress''
                 (Some (err_message (cast_error ''_id'' i))))))"

text \<open>\<open>GET /dresses/search\<close>.\<close>

record search_query =
  sq_q :: "string option"
  sq_category :: "string option"
  sq_minPrice :: "rat option"
  sq_maxPrice :: "rat option"
  sq_sort :: "string option"
  sq_page :: "string option"
  sq_limit :: "string option"

definition search_matches :: "rx_atom list \<Rightarrow> dress \<Rightarrow> bool" where
  "search_matches r d =
     (rx_test r (dress_name d) \<or> rx_test r (dress_description d) \<or>
      (case material d of None \<Rightarrow> False | Some m \<Rightarrow> rx_test r m) \<or>
      list_ex (rx_test r) (tags d))"

definition search_filter :: "search_query \<Rightarrow> rx_atom list \<Rightarrow> dress \<Rightarrow> bool" where
  "search_filter q r d =
     (isActive d \<and> search_matches r d \<and> in_category (sq_category q) d \<and>
      price_in_range (sq_minPrice q) (sq_maxPrice q) d)"

definition search_dresses :: "env \<Rightarrow> world \<Rightarrow> search_query \<Rightarrow> string page_body outcome option" where
  "search_dresses ev w q =
     (case nonempty (sq_q q) of
        None \<Rightarrow> Some (Responded (Failure 400 ''Search query (q) is required'' None))
      | Some t \<Rightarrow>
          (case new_RegExp t of
             Unmodelled \<Rightarrow> None
           | RxThrows e \<Rightarrow>
               Some (Responded (Failure 500 ''Error searching dresses'' (Some (err_message e))))
           | Pattern r \<Rightarrow>
               Some
                 (if category_castable (sq_category q)
                  then page_response ev ''Error searching dresses'' t (search_sort (sq_sort q))
                         (filter (search_filter q r) (dresses w))
                         (pagination (sq_page q) (sq_limit q))
                  else Responded (Failure 500 ''Error searching dresses''
                         (Some (err_message
                            (cast_error ''category'' (case sq_category q of None \<Rightarrow> [] | Some i \<Rightarrow> i))))))))"

text \<open>The search contract, read on a document: the query occurs in one of the four fields.\<close>

definition spec_matches :: "string \<Rightarrow> dress \<Rightarrow> bool" where
  "spec_matches t d =
     (spec_ci_substring t (dress_name d) \<or> spec_ci_substring t (dress_description d) \<or>
      (case material d of None \<Rightarrow> False | Some m \<Rightarrow> spec_ci_substring t m) \<or>
      list_ex (spec_ci_substring t) (tags d))"

section \<open>routes/routes.js: writing dresses\<close>

text \<open>
  A body field that may arrive as JSON text: \<open>Absent\<close> is a falsy value, \<open>Given v\<close> is
  the value supplied directly or as well-formed JSON text, \<open>BadJson\<close> is text on which
  \<open>JSON.parse\<close> throws.
\<close>

datatype 'a field = Absent | Given 'a | BadJson

definition validation_error :: "string \<Rightarrow> js_error" where
  "validation_error m = \<lparr>err_message = m, err_code = None\<rparr>"

record dress_body =
  db_name :: "string option"
  db_description :: "string option"
  db_category :: "string option"
  db_price :: "price field"
  db_sizes :: "size_entry list field"
  db_colors :: "color_entry list field"
  db_material :: "string option"
  db_careInstructions :: "string option"
  db_tags :: "string list field"
  db_whatsappNumber :: "string option"
  db_isFeatured :: "bool option"
  db_sortOrder :: "int option"
  db_images :: "image list option"

definition from_field :: "'a \<Rightarrow> 'a field \<Rightarrow> 'a" where
  "from_field dflt f = (case f of Given v \<Rightarrow> v | _ \<Rightarrow> dflt)"

text \<open>
  \<open>new Dress({...})\<close> followed by \<open>save()\<close>: a document without one of the required
  fields fails validation; otherwise the store decides.
\<close>

definition new_dress :: "env \<Rightarrow> dress_body \<Rightarrow> image list \<Rightarrow> js_error + dress" where
  "new_dress ev b imgs =
     (case (nonempty (db_name b), nonempty (db_description b), nonempty (db_category b),
            db_price b, nonempty (db_whatsappNumber b)) of
        (Some n, Some ds, Some c, Given p, Some wa) \<Rightarrow>
          Inr \<lparr>dress_id = fresh_id ev, dress_name = n, dress_description = ds,
               dress_category = c, images = imgs, dress_price = p,
               sizes = from_field [] (db_sizes b), colors = from_field [] (db_colors b),
               material = db_material b, careInstructions = db_careInstructions b,
               tags = from_field [] (db_tags b), isActive = True,
               isFeatured = (db_isFeatured b = Some True),
               sortOrder = (case db_sortOrder b of None \<Rightarrow> 0 | Some k \<Rightarrow> k),
               whatsappNumber = wa, views = 0\<rparr>
      | _ \<Rightarrow> Inl (validation_error ''Dress validation failed''))"

definition save_new_dress :: "env \<Rightarrow> world \<Rightarrow> dress_body \<Rightarrow> image list \<Rightarrow> js_error + (world \<times> dress)" where
  "save_new_dress ev w b imgs =
     (case new_dress ev b imgs of
        Inl e \<Rightarrow> Inl e
      | Inr d \<Rightarrow>
          (case dress_save ev d of
             Some e \<Rightarrow> Inl e
           | None \<Rightarrow> Inr (w\<lparr>dresses := dresses w @ [d]\<rparr>, d)))"

text \<open>
  \<open>POST /dress\<close>. The two early returns (no image, malformed JSON) leave the \<open>try\<close>
  block without cleanup. In the \<open>catch\<close> block the compensating
  \<open>await deleteMultipleFromCloudinary(publicIds)\<close> stands before the response and is not
  guarded.
\<close>

definition post_dress :: "env \<Rightarrow> world \<Rightarrow> dress_body \<Rightarrow> world \<times> dress outcome" where
  "post_dress ev w b =
     (case db_images b of
        None \<Rightarrow>
          (w, Responded (Failure 400 ''At least one dress image is required in images array'' None))
      | Some imgs \<Rightarrow>
          if imgs = []
          then (w, Responded
                 (Failure 400 ''At least one dress image is required in images array'' None))
          else if db_price b = BadJson \<or> db_sizes b = BadJson \<or> db_colors b = BadJson \<or>
                  db_tags b = BadJson
          then (w, Responded (Failure 400 ''Invalid JSON format in request data'' None))
          else
            (case save_new_dress ev w b imgs of
               Inr (w1, saved) \<Rightarrow> (w1, Responded (Success 201 saved))
             | Inl err \<Rightarrow>
                 (case deleteMultipleFromCloudinary ev w (map img_public_id imgs) of
                    (w1, Inl e2) \<Rightarrow> (w1, Rejected e2)
                  | (w1, Inr u) \<Rightarrow>
                      (w1, Responded (Failure 500 ''Error creating dress''
                             (Some (err_message err)))))))"

record dress_update =
  du_name :: "string option"
  du_description :: "string option"
  du_category :: "string option"
  du_price :: "price field"
  du_sizes :: "size_entry list field"
  du_colors :: "color_entry list field"
  du_material :: "string option"
  du_careInstructions :: "string option"
  du_tags :: "string list field"
  du_whatsappNumber :: "string option"
  du_isFeatured :: "bool option"
  du_isActive :: "bool option"
  du_sortOrder :: "int option"
  du_removeImages :: "string list field"
  du_newImages :: "image list option"

text \<open>
  "Update provided fields": \<open>name\<close>, \<open>category\<close>, \<open>material\<close> and
  \<open>whatsappNumber\<close> are assigned when truthy, the parsed fields when present, the
  others when they are not \<open>undefined\<close>. No assignment touches \<open>images\<close>.
\<close>

definition apply_fields :: "dress_update \<Rightarrow> dress \<Rightarrow> dress" where
  "apply_fields b d =
     d\<lparr>dress_name := (case nonempty (du_name b) of None \<Rightarrow> dress_name d | Some v \<Rightarrow> v),
       dress_description :=
         (case du_description b of None \<Rightarrow> dress_description d | Some v \<Rightarrow> v),
       dress_category :=
         (case nonempty (du_category b) of None \<Rightarrow> dress_category d | Some v \<Rightarrow> v),
       dress_price := from_field (dress_price d) (du_price b),
       sizes := from_field (sizes d) (du_sizes b),
       colors := from_field (colors d) (du_colors b),
       material := (case nonempty (du_material b) of None \<Rightarrow> material d | Some v \<Rightarrow> Some v),
       careInstructions :=
         (case du_careInstructions b of None \<Rightarrow> careInstructions d | Some v \<Rightarrow> Some v),
       tags := from_field (tags d) (du_tags b),
       whatsappNumber :=
         (case nonempty (du_whatsappNumber b) of None \<Rightarrow> whatsappNumber d | Some v \<Rightarrow> v),
       isFeatured := (case du_isFeatured b of None \<Rightarrow> isFeatured d | Some v \<Rightarrow> v),
       isActive := (case du_isActive b of None \<Rightarrow> isActive d | Some v \<Rightarrow> v),
       sortOrder := (case du_sortOrder b of None \<Rightarrow> sortOrder d | Some v \<Rightarrow> v)\<rparr>"

text \<open>The \<open>catch\<close> block of \<open>PUT /dress/:id\<close>.\<close>

definition put_dress_catch :: "env \<Rightarrow> world \<Rightarrow> dress_update \<Rightarrow> js_error \<Rightarrow> world \<times> dress outcome" where
  "put_dress_catch ev w b err =
     (case du_newImages b of
        None \<Rightarrow> (w, Responded (Failure 500 ''Error updating dress'' (Some (err_message err))))
      | Some ns \<Rightarrow>
          (case deleteMultipleFromCloudinary ev w (map img_public_id ns) of
             (w1, Inl e2) \<Rightarrow> (w1, Rejected e2)
           | (w1, Inr u) \<Rightarrow>
               (w1, Responded (Failure 500 ''Error updating dress'' (Some (err_message err))))))"

text \<open>
  Step 1 of the image update: the requested assets are deleted remotely first, then
  filtered out of the in-memory document.
\<close>

definition remove_images :: "env \<Rightarrow> world \<Rightarrow> string list \<Rightarrow> dress \<Rightarrow> world \<times> (js_error + dress)" where
  "remove_images ev w rs d =
     (if rs = [] then (w, Inr d)
      else
        (case deleteMultipleFromCloudinary ev w rs of
           (w1, Inl e) \<Rightarrow> (w1, Inl e)
         | (w1, Inr u) \<Rightarrow>
             (w1, Inr (d\<lparr>images := filter (\<lambda>im. img_public_id im \<notin> set rs) (images d)\<rparr>))))"

text \<open>Step 2: \<open>dress.images.push(...newImages)\<close> when a non-empty array is supplied.\<close>

definition add_images :: "image list option \<Rightarrow> dress \<Rightarrow> dress" where
  "add_images ns d = (case ns of None \<Rightarrow> d | Some l \<Rightarrow> d\<lparr>images := images d @ l\<rparr>)"

fun replace_doc :: "dress \<Rightarrow> dress list \<Rightarrow> dress list" where
  "replace_doc d [] = []"
| "replace_doc d (x # xs) = (if dress_id x = dress_id d then d # xs else x # replace_doc d xs)"

definition put_dress :: "env \<Rightarrow> world \<Rightarrow> string \<Rightarrow> dress_update \<Rightarrow> world \<times> dress outcome" where
  "put_dress ev w i b =
     (if isObjectId i
      then
        (case List.find (\<lambda>d. dress_id d = toLowerCase i) (dresses w) of
           None \<Rightarrow> (w, Responded (Failure 404 ''Dress not found'' None))
         | Some d0 \<Rightarrow>
             if du_price b = BadJson \<or> du_sizes b = BadJson \<or> du_colors b = BadJson \<or>
                du_tags b = BadJson \<or> du_removeImages b = BadJson
             then (w, Responded (Failure 400 ''Invalid JSON format in request data'' None))
             else
               (case remove_images ev w (from_field [] (du_removeImages b)) (apply_fields b d0) of
                  (w1, Inl e) \<Rightarrow> put_dress_catch ev w1 b e
                | (w1, Inr d2) \<Rightarrow>
                    (let d3 = add_images (du_newImages b) d2
                     in if images d3 = []
                        then (w1, Responded (Failure 400 ''Dress must have at least one image'' None))
                        else
                          (case dress_save ev d3 of
                             Some e \<Rightarrow> put_dress_catch ev w1 b e
                           | None \<Rightarrow>
                               (w1\<lparr>dresses := replace_doc d3 (dresses w1)\<rparr>,
                                Responded (Success 200 d3))))))
      else put_dress_catch ev w b (cast_error ''_id'' i))"

section \<open>A small shop used in the concrete scenarios\<close>

definition cloud_down :: js_error where
  "cloud_down = \<lparr>err_message = ''Cloudinary unavailable'', err_code = None\<rparr>"

definition duplicate_key :: js_error where
  "duplicate_key = \<lparr>err_message = ''E11000 duplicate key error'', err_code = Some 11000\<rparr>"

definition write_failed :: js_error where
  "write_failed = \<lparr>err_message = ''connection lost'', err_code = None\<rparr>"

definition calm_env :: env where
  "calm_env =
     \<lparr>cloud_destroy = (\<lambda>i. None), category_save = (\<lambda>c. None), dress_save = (\<lambda>d. None),
      views_inc = (\<lambda>i. None), fresh_id = ''64b7f0c2a1d3e4f5a6b7c8ff'',
      apply_sort = (\<lambda>k ds. ds),
      nan_page = (\<lambda>ds. Inl \<lparr>err_message = ''limit is not a number'', err_code = None\<rparr>)\<rparr>"

definition sarees :: category where
  "sarees =
     \<lparr>cat_id = ''64b7f0c2a1d3e4f5a6b7c801'', cat_name = ''Sarees'', cat_description = None,
      image_url = ''https://img.example/cat1.jpg'', image_public_id = ''categories/c1'',
      slug = ''sarees'', cat_isActive = True, cat_sortOrder = 0\<rparr>"

definition gown :: dress where
  "gown =
     \<lparr>dress_id = ''64b7f0c2a1d3e4f5a6b7c8d9'', dress_name = ''Abc gown'',
      dress_description = ''Plain evening wear'',
      dress_category = ''64b7f0c2a1d3e4f5a6b7c801'',
      images = [\<lparr>img_url = ''https://img.example/a1.jpg'', img_public_id = ''dresses/a1'',
                 img_alt = ''front''\<rparr>],
      dress_price = \<lparr>original = 100, discounted = None\<rparr>,
      sizes = [], colors = [], material = None, careInstructions = None, tags = [],
      isActive = True, isFeatured = False, sortOrder = 0,
      whatsappNumber = ''+911234567890'', views = 7\<rparr>"

definition shop :: world where
  "shop = \<lparr>categories = [sarees], dresses = [gown], destroy_calls = [], console_errors = []\<rparr>"

definition no_update :: dress_update where
  "no_update =
     \<lparr>du_name = None, du_description = None, du_category = None, du_price = Absent,
      du_sizes = Absent, du_colors = Absent, du_material = None, du_careInstructions = None,
      du_tags = Absent, du_whatsappNumber = None, du_isFeatured = None, du_isActive = None,
      du_sortOrder = None, du_removeImages = Absent, du_newImages = None\<rparr>"

definition new_gown :: dress_body where
  "new_gown =
     \<lparr>db_name = Some ''Silk gown'', db_description = Some ''Hand woven'',
      db_category = Some ''64b7f0c2a1d3e4f5a6b7c801'',
      db_price = Given \<lparr>original = 250, discounted = None\<rparr>,
      db_sizes = Absent, db_colors = Absent, db_material = None, db_careInstructions = None,
      db_tags = Absent, db_whatsappNumber = Some ''+911234567890'', db_isFeatured = None,
      db_sortOrder = None,
      db_images = Some [\<lparr>img_url = ''https://img.example/n1.jpg'',
                          img_public_id = ''dresses/n1'', img_alt = []\<rparr>]\<rparr>"

definition new_sarees :: category_body where
  "new_sarees =
     \<lparr>cb_name = Some ''Sarees'', cb_description = None, cb_sortOrder = None,
      cb_imageUrl = Some ''https://img.example/cat2.jpg'', cb_public_id = Some ''categories/c2''\<rparr>"

definition plain_list :: list_query where
  "plain_list =
     \<lparr>lq_category = None, lq_featured = None, lq_minPrice = None, lq_maxPrice = None,
      lq_size = None, lq_color = None, lq_material = None, lq_sort = None, lq_page = None,
      lq_limit = None\<rparr>"

definition plain_search :: "string \<Rightarrow> search_query" where
  "plain_search t =
     \<lparr>sq_q = Some t, sq_category = None, sq_minPrice = None, sq_maxPrice = None,
      sq_sort = None, sq_page = None, sq_limit = None\<rparr>"

definition accounts :: login_env where
  "accounts =
     \<lparr>findOne_email =
        (\<lambda>e. if e = ''asha@example.com''
             then Inr (Some \<lparr>usr_id = ''64b7f0c2a1d3e4f5a6b7c8aa'', usr_username = ''asha'',
                             usr_email = ''asha@example.com'', usr_role = ''user''\<rparr>)
             else Inr None),
      matchPassword = (\<lambda>u p. Inr (p = ''correct horse'')),
      jwt_sign = (\<lambda>i r. Inr (''signed.'' @ i @ ''.'' @ r))\<rparr>"

text \<open>Environments in which the store rejects writes, or the asset host is down, or both.\<close>

definition store_rejects :: env where
  "store_rejects =
     calm_env\<lparr>category_save := (\<lambda>c. Some duplicate_key),
               dress_save := (\<lambda>d. Some write_failed)\<rparr>"

definition host_down :: env where
  "host_down = calm_env\<lparr>cloud_destroy := (\<lambda>i. Some cloud_down)\<rparr>"

definition store_rejects_host_down :: env where
  "store_rejects_host_down = store_rejects\<lparr>cloud_destroy := (\<lambda>i. Some cloud_down)\<rparr>"

definition counter_down :: env where
  "counter_down = calm_env\<lparr>views_inc := (\<lambda>i. Some write_failed)\<rparr>"

definition remove_only_image :: dress_update where
  "remove_only_image = no_update\<lparr>du_removeImages := Given [''dresses/a1'']\<rparr>"

definition abc_page :: list_query where
  "abc_page = plain_list\<lparr>lq_page := Some ''abc''\<rparr>"

definition lenient_store :: env where
  "lenient_store = calm_env\<lparr>nan_page := (\<lambda>ds. Inr ds)\<rparr>"

section \<open>Properties: adminOnly\<close>

lemma adminOnly_cases:
  "adminOnly u = (if is_admin u then Next else Sent (Failure 403 ''Access denied: admin only'' None))"
  by (cases u) (simp_all add: adminOnly_def is_admin_def read_role_def)

text \<open>
  Claim C10. The admin check is total even when no identity is attached to the request:
  it never throws, it calls \<open>next\<close> exactly when a user object with role \<open>admin\<close> is
  present, and in every other case (no user, or any other role, or no role) it answers
  403 Forbidden.
\<close>

theorem C10_adminOnly_total:
  "(\<forall>e. adminOnly u \<noteq> Threw e) \<and>
   (adminOnly u = Next) = (\<exists>usr. u = Some usr \<and> user_role usr = Some ''admin'') \<and>
   (if (\<exists>usr. u = Some usr \<and> user_role usr = Some ''admin'')
    then adminOnly u = Next
    else adminOnly u = Sent (Failure 403 ''Access denied: admin only'' None)) \<and>
   adminOnly None = Sent (Failure 403 ''Access denied: admin only'' None)"
  by (cases u) (simp_all add: adminOnly_def read_role_def)

section \<open>Properties: price virtuals\<close>

lemma math_round_of_int: "math_round (of_int n) = n"
  unfolding math_round_def by (rule floor_unique) simp_all

lemma effectivePrice_absent: "discounted p = None \<Longrightarrow> effectivePrice p = original p"
  by (simp add: effectivePrice_def)

lemma effectivePrice_nonzero:
  "discounted p = Some d \<Longrightarrow> d \<noteq> 0 \<Longrightarrow> effectivePrice p = d"
  by (simp add: effectivePrice_def truthy_num_def)

lemma discountPercentage_absent: "discounted p = None \<Longrightarrow> discountPercentage p = 0"
  by (simp add: discountPercentage_def)

lemma discountPercentage_nonzero:
  "discounted p = Some d \<Longrightarrow> d \<noteq> 0 \<Longrightarrow> 0 < original p \<Longrightarrow>
   discountPercentage p = math_round ((original p - d) / original p * 100)"
  by (simp add: discountPercentage_def truthy_num_def)

text \<open>
  Claim C1 at the price \<open>{original: 100, discounted: 0}\<close>, which passes every schema
  validator. A discount is set and it is at most the original price, so the claim
  requires an effective price of 0 and a discount percentage of
  \<open>round((100 - 0) / 100 * 100) = 100\<close>. The virtuals test the discounted price for
  truthiness, so they treat 0 as absent: the effective price is 100 and the discount
  percentage is 0.
\<close>

theorem C1_zero_discount_ignored:
  "price_valid \<lparr>original = 100, discounted = Some 0\<rparr> \<and>
   effectivePrice \<lparr>original = 100, discounted = Some 0\<rparr> = 100 \<and>
   effectivePrice \<lparr>original = 100, discounted = Some 0\<rparr> \<noteq> 0 \<and>
   discountPercentage \<lparr>original = 100, discounted = Some 0\<rparr> = 0 \<and>
   math_round ((100 - 0) / 100 * 100) = 100"
  using math_round_of_int [of 100]
  by (simp add: price_valid_def effectivePrice_def discountPercentage_def truthy_num_def)

section \<open>Properties: category slug\<close>

lemma to_lower_char_not_upper: "\<not> is_upper (to_lower_char c)"
  by (auto simp: to_lower_char_def is_upper_def)

lemma slug_char_replaced:
  "slug_char (if is_lower (to_lower_char c) \<or> is_upper (to_lower_char c) \<or> is_digit (to_lower_char c)
              then to_lower_char c else CHR ''-'')"
  using to_lower_char_not_upper [of c] by (auto simp: slug_char_def)

lemma slug_char_replace: "list_all slug_char (replace_non_alnum (toLowerCase s))"
  by (induction s) (simp_all add: replace_non_alnum_def toLowerCase_def slug_char_replaced)

lemma collapse_hyphens_head:
  "\<exists>ds. collapse_hyphens (a # cs) = a # ds"
  by (induction cs arbitrary: a) auto

lemma set_collapse: "set (collapse_hyphens s) \<subseteq> set s"
  by (induction s rule: collapse_hyphens.induct) auto

lemma collapse_no_double: "\<not> has_double_hyphen (collapse_hyphens s)"
proof (induction s rule: collapse_hyphens.induct)
  case (1 a b cs)
  obtain ds where ds: "collapse_hyphens (b # cs) = b # ds"
    using collapse_hyphens_head by blast
  with 1 show ?case by auto
qed simp_all

lemma slug_char_collapse: "list_all slug_char s \<Longrightarrow> list_all slug_char (collapse_hyphens s)"
  using set_collapse [of s] by (auto simp: list_all_iff)

lemma set_strip: "set (strip_edge_hyphens s) \<subseteq> set s"
  by (cases s)
     (auto simp: strip_edge_hyphens_def strip_leading_hyphen_def strip_trailing_hyphen_def
           dest: in_set_butlastD)

lemma slug_char_strip: "list_all slug_char s \<Longrightarrow> list_all slug_char (strip_edge_hyphens s)"
  using set_strip [of s] by (auto simp: list_all_iff)

lemma has_double_hyphen_tl: "\<not> has_double_hyphen (c # cs) \<Longrightarrow> \<not> has_double_hyphen cs"
  by (cases cs) auto

lemma has_double_hyphen_butlast: "\<not> has_double_hyphen s \<Longrightarrow> \<not> has_double_hyphen (butlast s)"
  by (induction s rule: has_double_hyphen.induct) (auto split: if_splits)

lemma leading_no_double:
  "\<not> has_double_hyphen s \<Longrightarrow> \<not> has_double_hyphen (strip_leading_hyphen s)"
  by (cases s) (auto simp: strip_leading_hyphen_def dest: has_double_hyphen_tl)

lemma trailing_no_double:
  "\<not> has_double_hyphen s \<Longrightarrow> \<not> has_double_hyphen (strip_trailing_hyphen s)"
  by (simp add: strip_trailing_hyphen_def has_double_hyphen_butlast)

lemma strip_no_double: "\<not> has_double_hyphen s \<Longrightarrow> \<not> has_double_hyphen (strip_edge_hyphens s)"
  by (simp add: strip_edge_hyphens_def leading_no_double trailing_no_double)

lemma leading_no_leading:
  "\<not> has_double_hyphen s \<Longrightarrow> \<not> starts_with_hyphen (strip_leading_hyphen s)"
  by (cases s rule: has_double_hyphen.cases)
     (auto simp: strip_leading_hyphen_def starts_with_hyphen_def)

lemma trailing_keeps_start:
  "\<not> starts_with_hyphen s \<Longrightarrow> \<not> starts_with_hyphen (strip_trailing_hyphen s)"
  by (cases s rule: has_double_hyphen.cases)
     (auto simp: strip_trailing_hyphen_def starts_with_hyphen_def)

lemma last_butlast_hyphen:
  "\<not> has_double_hyphen s \<Longrightarrow> s \<noteq> [] \<Longrightarrow> last s = CHR ''-'' \<Longrightarrow> butlast s \<noteq> [] \<Longrightarrow>
   last (butlast s) \<noteq> CHR ''-''"
  by (induction s rule: has_double_hyphen.induct) (auto split: if_splits)

lemma trailing_no_trailing:
  "\<not> has_double_hyphen s \<Longrightarrow> \<not> ends_with_hyphen (strip_trailing_hyphen s)"
  using last_butlast_hyphen [of s]
  by (auto simp: strip_trailing_hyphen_def ends_with_hyphen_def)

lemma strip_no_leading:
  "\<not> has_double_hyphen s \<Longrightarrow> \<not> starts_with_hyphen (strip_edge_hyphens s)"
  by (simp add: strip_edge_hyphens_def leading_no_leading trailing_keeps_start)

lemma strip_no_trailing:
  "\<not> has_double_hyphen s \<Longrightarrow> \<not> ends_with_hyphen (strip_edge_hyphens s)"
  by (simp add: strip_edge_hyphens_def leading_no_double trailing_no_trailing)

lemma toLowerCase_slug: "list_all slug_char s \<Longrightarrow> toLowerCase s = s"
  by (induction s) (auto simp: toLowerCase_def to_lower_char_def slug_char_def is_upper_def
      is_lower_def is_digit_def)

lemma slugify_shape: "list_all slug_char (slugify name)"
  unfolding slugify_def
  by (intro slug_char_strip slug_char_collapse slug_char_replace)

lemma slugify_hyphens:
  "\<not> has_double_hyphen (slugify name) \<and> \<not> starts_with_hyphen (slugify name) \<and>
   \<not> ends_with_hyphen (slugify name)"
  unfolding slugify_def
  by (intro conjI strip_no_double strip_no_leading strip_no_trailing collapse_no_double)

text \<open>
  Claim C8. The slug is a function of the name alone: it contains only lowercase
  letters, digits and hyphens, never two hyphens in a row, and no hyphen at either end,
  for every name. The pre-save hook stores exactly this value for a new category and
  whenever the name differs from the stored one, and leaves the slug alone otherwise.
\<close>

theorem C8_slug_shape:
  "list_all slug_char (slugify name) \<and>
   \<not> has_double_hyphen (slugify name) \<and>
   \<not> starts_with_hyphen (slugify name) \<and>
   \<not> ends_with_hyphen (slugify name) \<and>
   slug (category_pre_save None doc) = slugify (cat_name doc) \<and>
   slug (category_pre_save (Some old) doc) =
     (if cat_name old \<noteq> cat_name doc then slugify (cat_name doc) else slug doc)"
  using slugify_shape [of name] slugify_hyphens [of name]
    toLowerCase_slug [OF slugify_shape, of "cat_name doc"]
  by (simp add: category_pre_save_def isModified_name_def)

section \<open>Properties: login\<close>

text \<open>
  Claim C9. A login with an existing email and a wrong password, and a login with an
  email no user has, both answer 401 with the same body
  \<open>{success: false, message: 'Invalid credentials'}\<close>.
\<close>

theorem C9_login_indistinguishable:
  assumes "e1 \<noteq> []" and "p1 \<noteq> []" and "e2 \<noteq> []" and "p2 \<noteq> []"
    and "findOne_email env e1 = Inr (Some u)"
    and "matchPassword env u p1 = Inr False"
    and "findOne_email env e2 = Inr None"
  shows "login env (Some e1) (Some p1) = Responded (Failure 401 ''Invalid credentials'' None) \<and>
         login env (Some e2) (Some p2) = Responded (Failure 401 ''Invalid credentials'' None) \<and>
         login env (Some e1) (Some p1) = login env (Some e2) (Some p2)"
  using assms by (simp add: login_def)

theorem C9_login_witness:
  "findOne_email accounts ''asha@example.com'' =
     Inr (Some \<lparr>usr_id = ''64b7f0c2a1d3e4f5a6b7c8aa'', usr_username = ''asha'',
                 usr_email = ''asha@example.com'', usr_role = ''user''\<rparr>) \<and>
   matchPassword accounts
     \<lparr>usr_id = ''64b7f0c2a1d3e4f5a6b7c8aa'', usr_username = ''asha'',
      usr_email = ''asha@example.com'', usr_role = ''user''\<rparr> ''guess'' = Inr False \<and>
   findOne_email accounts ''nobody@example.com'' = Inr None \<and>
   login accounts (Some ''asha@example.com'') (Some ''guess'') =
     Responded (Failure 401 ''Invalid credentials'' None) \<and>
   login accounts (Some ''nobody@example.com'') (Some ''guess'') =
     Responded (Failure 401 ''Invalid credentials'' None)"
proof -
  have h1: "findOne_email accounts ''asha@example.com'' =
     Inr (Some \<lparr>usr_id = ''64b7f0c2a1d3e4f5a6b7c8aa'', usr_username = ''asha'',
                 usr_email = ''asha@example.com'', usr_role = ''user''\<rparr>)"
    by (simp add: accounts_def)
  have h2: "matchPassword accounts
     \<lparr>usr_id = ''64b7f0c2a1d3e4f5a6b7c8aa'', usr_username = ''asha'',
      usr_email = ''asha@example.com'', usr_role = ''user''\<rparr> ''guess'' = Inr False"
    by (simp add: accounts_def)
  have h3: "findOne_email accounts ''nobody@example.com'' = Inr None"
    by (simp add: accounts_def)
  show ?thesis
    using h1 h2 h3 C9_login_indistinguishable [OF _ _ _ _ h1 h2 h3, of "''guess''"]
    by simp
qed

section \<open>Properties: compensating deletion\<close>

lemma isObjectId_gown: "isObjectId ''64b7f0c2a1d3e4f5a6b7c8d9''"
  by (simp add: isObjectId_def is_hex_def is_digit_def)

lemma deleteFromCloudinary_calls:
  "destroy_calls (fst (deleteFromCloudinary ev w p)) = destroy_calls w @ [p]"
  by (simp add: deleteFromCloudinary_def Let_def split: option.splits)

lemma deleteFromCloudinary_result:
  "snd (deleteFromCloudinary ev w p) = (case cloud_destroy ev p of None \<Rightarrow> Inr () | Some e \<Rightarrow> Inl e)"
  by (simp add: deleteFromCloudinary_def Let_def split: option.splits)

lemma deleteMultiple_result:
  "snd (deleteMultipleFromCloudinary ev w ps) =
     (case first_failure ev ps of None \<Rightarrow> Inr () | Some e \<Rightarrow> Inl e)"
  by (simp add: deleteMultipleFromCloudinary_def first_failure_def Let_def split: option.splits)

lemma deleteMultiple_dresses:
  "dresses (fst (deleteMultipleFromCloudinary ev w ps)) = dresses w"
  by (simp add: deleteMultipleFromCloudinary_def Let_def split: option.splits)

lemma deleteMultiple_calls:
  "destroy_calls (fst (deleteMultipleFromCloudinary ev w ps)) = destroy_calls w @ ps"
  by (simp add: deleteMultipleFromCloudinary_def Let_def split: option.splits)

text \<open>
  When the store rejects a new category, the deletion of the uploaded asset is always
  requested; the caller sees the store's failure only if that deletion succeeds.
\<close>

lemma post_category_store_failure:
  assumes "cb_imageUrl body = Some url" and "cb_public_id body = Some pid"
    and "url \<noteq> []" and "pid \<noteq> []"
    and "\<And>c. category_save ev c = Some err"
  shows "destroy_calls (fst (post_category ev w body)) = destroy_calls w @ [pid]"
    and "snd (post_category ev w body) =
           (case cloud_destroy ev pid of
              Some e2 \<Rightarrow> Rejected e2
            | None \<Rightarrow>
                if err_code err = Some 11000
                then Responded (Failure 400 ''Category name already exists'' None)
                else Responded (Failure 500 ''Error creating category'' (Some (err_message err))))"
  using assms
  by (simp_all add: post_category_def save_new_category_def deleteFromCloudinary_def Let_def
      split: option.splits)

lemma post_dress_store_failure:
  assumes "db_images b = Some imgs" and "imgs \<noteq> []"
    and "db_price b \<noteq> BadJson" and "db_sizes b \<noteq> BadJson" and "db_colors b \<noteq> BadJson"
    and "db_tags b \<noteq> BadJson"
    and "save_new_dress ev w b imgs = Inl err"
  shows "destroy_calls (fst (post_dress ev w b)) = destroy_calls w @ map img_public_id imgs"
    and "snd (post_dress ev w b) =
           (case first_failure ev (map img_public_id imgs) of
              Some e2 \<Rightarrow> Rejected e2
            | None \<Rightarrow> Responded (Failure 500 ''Error creating dress'' (Some (err_message err))))"
  using assms
  by (simp_all add: post_dress_def deleteMultipleFromCloudinary_def first_failure_def Let_def
      split: option.splits)

text \<open>
  The early return on malformed JSON answers 400 without requesting any deletion,
  although the uploaded images accompany the request.
\<close>

lemma post_dress_bad_json_no_cleanup:
  "db_images b = Some imgs \<Longrightarrow> imgs \<noteq> [] \<Longrightarrow> db_price b = BadJson \<Longrightarrow>
   post_dress ev w b =
     (w, Responded (Failure 400 ''Invalid JSON format in request data'' None))"
  by (simp add: post_dress_def)

text \<open>
  Claim C2 at two requests. \<open>POST /category\<close> with a name the store rejects as a
  duplicate, and \<open>POST /dress\<close> with a write the store rejects, each with one
  uploaded asset, while the asset host is down. The compensating deletion is requested
  and fails; the helper logs the failure and throws it again, the \<open>catch\<close> block of
  the handler does not guard the call, and the handler's promise rejects with the asset
  host's error. The response carrying the original failure (400 "Category name already
  exists", 500 "Error creating dress"), which the caller gets when the asset host is
  up, is never written.
\<close>

theorem C2_compensation_failure_escapes:
  "snd (post_category store_rejects_host_down shop new_sarees) = Rejected cloud_down \<and>
   destroy_calls (fst (post_category store_rejects_host_down shop new_sarees)) =
     [''categories/c2''] \<and>
   snd (post_category store_rejects shop new_sarees) =
     Responded (Failure 400 ''Category name already exists'' None) \<and>
   snd (post_dress store_rejects_host_down shop new_gown) = Rejected cloud_down \<and>
   destroy_calls (fst (post_dress store_rejects_host_down shop new_gown)) = [''dresses/n1''] \<and>
   snd (post_dress store_rejects shop new_gown) =
     Responded (Failure 500 ''Error creating dress'' (Some ''connection lost''))"
  by code_simp

section \<open>Properties: view counter\<close>

lemma get_dress_success:
  "isObjectId i \<Longrightarrow>
   List.find (\<lambda>d. dress_id d = toLowerCase i \<and> isActive d) (dresses w) = Some d \<Longrightarrow>
   views_inc ev i = None \<Longrightarrow>
   get_dress ev w i =
     (w\<lparr>dresses := inc_views (toLowerCase i) (dresses w)\<rparr>, Responded (Success 200 d))"
  by (simp add: get_dress_def)

lemma get_dress_counter_failure:
  "isObjectId i \<Longrightarrow>
   List.find (\<lambda>d. dress_id d = toLowerCase i \<and> isActive d) (dresses w) = Some d \<Longrightarrow>
   views_inc ev i = Some e \<Longrightarrow>
   get_dress ev w i = (w, Responded (Failure 500 ''Error fetching dress'' (Some (err_message e))))"
  by (simp add: get_dress_def)

lemma find_inc_views:
  "distinct (map dress_id ds) \<Longrightarrow>
   List.find (\<lambda>d. dress_id d = j \<and> isActive d) ds = Some d \<Longrightarrow>
   List.find (\<lambda>d. dress_id d = j \<and> isActive d) (inc_views j ds) = Some (d\<lparr>views := views d + 1\<rparr>)"
proof (induction ds)
  case Nil
  then show ?case by simp
next
  case (Cons x xs)
  show ?case
  proof (cases "dress_id x = j")
    case True
    show ?thesis
    proof (cases "isActive x")
      case True
      with \<open>dress_id x = j\<close> Cons.prems show ?thesis by simp
    next
      case False
      with True Cons.prems have "List.find (\<lambda>d. dress_id d = j \<and> isActive d) xs = Some d"
        by simp
      then have "d \<in> set xs" and "dress_id d = j"
        by (auto simp: find_Some_iff)
      with True Cons.prems(1) have False by (auto simp: image_iff)
      then show ?thesis ..
    qed
  next
    case False
    with Cons show ?thesis by simp
  qed
qed

text \<open>
  With unique ids and a working counter, a fetch returns the stored document and the
  next fetch returns it with one more view.
\<close>

lemma two_fetches:
  assumes "isObjectId i" and "distinct (map dress_id (dresses w))"
    and "List.find (\<lambda>d. dress_id d = toLowerCase i \<and> isActive d) (dresses w) = Some d"
    and "views_inc ev i = None"
  shows "snd (get_dress ev w i) = Responded (Success 200 d)"
    and "snd (get_dress ev (fst (get_dress ev w i)) i) =
           Responded (Success 200 (d\<lparr>views := views d + 1\<rparr>))"
  using assms find_inc_views [OF assms(2,3)]
  by (simp_all add: get_dress_success get_dress_def)

text \<open>
  Claim C3 at a fetch of the active dress of the shop while the counter update fails.
  The handler awaits the update inside its \<open>try\<close> block, so the failure reaches the
  \<open>catch\<close> block and the read answers 500 although the dress was found; the claim (and
  the comment "fire-and-forget" on that line) require the read to succeed.
\<close>

theorem C3_counter_failure_fails_read:
  "List.find (\<lambda>d. dress_id d = ''64b7f0c2a1d3e4f5a6b7c8d9'' \<and> isActive d) (dresses shop) =
     Some gown \<and>
   get_dress counter_down shop ''64b7f0c2a1d3e4f5a6b7c8d9'' =
     (shop, Responded (Failure 500 ''Error fetching dress'' (Some ''connection lost''))) \<and>
   snd (get_dress calm_env shop ''64b7f0c2a1d3e4f5a6b7c8d9'') = Responded (Success 200 gown)"
  by code_simp

section \<open>Properties: updating the images of a dress\<close>

lemma put_dress_catch_no_new:
  "du_newImages b = None \<or> du_newImages b = Some [] \<Longrightarrow>
   put_dress_catch ev w b err =
     (w, Responded (Failure 500 ''Error updating dress'' (Some (err_message err))))"
  by (auto simp: put_dress_catch_def deleteMultipleFromCloudinary_def)

lemma remove_images_dresses: "dresses (fst (remove_images ev w rs d)) = dresses w"
  by (simp add: remove_images_def deleteMultipleFromCloudinary_def Let_def split: option.splits)

lemma remove_images_result:
  "snd (remove_images ev w rs d) =
     (case first_failure ev rs of
        None \<Rightarrow> Inr (d\<lparr>images := filter (\<lambda>im. img_public_id im \<notin> set rs) (images d)\<rparr>)
      | Some e \<Rightarrow> Inl e)"
  by (simp add: remove_images_def deleteMultipleFromCloudinary_def first_failure_def Let_def
      split: option.splits)

lemma images_apply_fields: "images (apply_fields b d) = images d"
  by (simp add: apply_fields_def)

text \<open>
  Claim C4 as stated fails when the asset host is down: the only image of the dress is
  to be removed, the remote deletion is attempted first and throws, and the update
  answers 500 "Error updating dress", not the validation failure.
\<close>

theorem C4_host_failure_counterexample:
  "List.find (\<lambda>d. dress_id d = ''64b7f0c2a1d3e4f5a6b7c8d9'') (dresses shop) = Some gown \<and>
   du_removeImages remove_only_image = Given [''dresses/a1''] \<and>
   du_newImages remove_only_image = None \<and>
   filter (\<lambda>im. img_public_id im \<notin> set [''dresses/a1'']) (images gown) = [] \<and>
   dresses (fst (put_dress host_down shop ''64b7f0c2a1d3e4f5a6b7c8d9'' remove_only_image)) =
     dresses shop \<and>
   snd (put_dress host_down shop ''64b7f0c2a1d3e4f5a6b7c8d9'' remove_only_image) =
     Responded (Failure 500 ''Error updating dress'' (Some ''Cloudinary unavailable'')) \<and>
   snd (put_dress host_down shop ''64b7f0c2a1d3e4f5a6b7c8d9'' remove_only_image) \<noteq>
     Responded (Failure 400 ''Dress must have at least one image'' None)"
  by code_simp

text \<open>
  Claim C4, amended. An update of an existing dress with a well-formed body whose
  removals and additions leave no image never saves: the stored dresses are unchanged.
  It answers 400 "Dress must have at least one image" when the remote deletion of the
  removed assets succeeds (or nothing is to be removed), and 500 with the asset host's
  error when that deletion fails.
\<close>

theorem C4_empty_image_set_rejected:
  assumes oid: "isObjectId i"
    and found: "List.find (\<lambda>d. dress_id d = toLowerCase i) (dresses w) = Some d0"
    and wellformed: "du_price b \<noteq> BadJson" "du_sizes b \<noteq> BadJson" "du_colors b \<noteq> BadJson"
      "du_tags b \<noteq> BadJson" "du_removeImages b \<noteq> BadJson"
    and empty: "filter (\<lambda>im. img_public_id im \<notin> set (from_field [] (du_removeImages b))) (images d0)
                @ (case du_newImages b of None \<Rightarrow> [] | Some l \<Rightarrow> l) = []"
  shows "dresses (fst (put_dress ev w i b)) = dresses w \<and>
         snd (put_dress ev w i b) =
           (case first_failure ev (from_field [] (du_removeImages b)) of
              None \<Rightarrow> Responded (Failure 400 ''Dress must have at least one image'' None)
            | Some e \<Rightarrow> Responded (Failure 500 ''Error updating dress'' (Some (err_message e))))"
proof -
  define rs where "rs = from_field [] (du_removeImages b)"
  define r where "r = remove_images ev w rs (apply_fields b d0)"
  have nonew: "du_newImages b = None \<or> du_newImages b = Some []"
    using empty by (cases "du_newImages b") auto
  have kept: "filter (\<lambda>im. img_public_id im \<notin> set rs) (images d0) = []"
    using empty by (simp add: rs_def)
  have step: "put_dress ev w i b =
      (case r of
         (w1, Inl e) \<Rightarrow> put_dress_catch ev w1 b e
       | (w1, Inr d2) \<Rightarrow>
           (let d3 = add_images (du_newImages b) d2
            in if images d3 = []
               then (w1, Responded (Failure 400 ''Dress must have at least one image'' None))
               else
                 (case dress_save ev d3 of
                    Some e \<Rightarrow> put_dress_catch ev w1 b e
                  | None \<Rightarrow>
                      (w1\<lparr>dresses := replace_doc d3 (dresses w1)\<rparr>,
                       Responded (Success 200 d3)))))"
    using oid found wellformed by (simp add: put_dress_def r_def rs_def)
  obtain w1 res where r: "r = (w1, res)" by (cases r)
  have w1: "dresses w1 = dresses w"
    using remove_images_dresses [of ev w rs "apply_fields b d0"] r by (simp add: r_def)
  have res: "res = (case first_failure ev rs of
        None \<Rightarrow> Inr ((apply_fields b d0)\<lparr>images := []\<rparr>)
      | Some e \<Rightarrow> Inl e)"
    using remove_images_result [of ev w rs "apply_fields b d0"] r kept
    by (simp add: r_def images_apply_fields cong: option.case_cong)
  show ?thesis
  proof (cases "first_failure ev rs")
    case None
    then have "res = Inr ((apply_fields b d0)\<lparr>images := []\<rparr>)" using res by simp
    moreover have "images (add_images (du_newImages b) ((apply_fields b d0)\<lparr>images := []\<rparr>)) = []"
      using nonew by (auto simp: add_images_def)
    ultimately show ?thesis
      using step r w1 None by (simp add: rs_def [symmetric] Let_def)
  next
    case (Some e)
    then have "res = Inl e" using res by simp
    then show ?thesis
      using step r w1 Some put_dress_catch_no_new [OF nonew, of ev w1 e]
      by (simp add: rs_def [symmetric])
  qed
qed

theorem C4_empty_image_set_witness:
  "isObjectId ''64b7f0c2a1d3e4f5a6b7c8d9'' \<and>
   List.find (\<lambda>d. dress_id d = toLowerCase ''64b7f0c2a1d3e4f5a6b7c8d9'') (dresses shop) = Some gown \<and>
   du_removeImages remove_only_image = Given [''dresses/a1''] \<and>
   filter (\<lambda>im. img_public_id im \<notin> set [''dresses/a1'']) (images gown) = [] \<and>
   du_newImages remove_only_image = None \<and>
   dresses (fst (put_dress calm_env shop ''64b7f0c2a1d3e4f5a6b7c8d9'' remove_only_image)) =
     dresses shop \<and>
   snd (put_dress calm_env shop ''64b7f0c2a1d3e4f5a6b7c8d9'' remove_only_image) =
     Responded (Failure 400 ''Dress must have at least one image'' None)"
proof -
  have found: "List.find (\<lambda>d. dress_id d = toLowerCase ''64b7f0c2a1d3e4f5a6b7c8d9'') (dresses shop)
      = Some gown"
    by code_simp
  have body: "du_price remove_only_image \<noteq> BadJson" "du_sizes remove_only_image \<noteq> BadJson"
    "du_colors remove_only_image \<noteq> BadJson" "du_tags remove_only_image \<noteq> BadJson"
    "du_removeImages remove_only_image \<noteq> BadJson"
    "du_removeImages remove_only_image = Given [''dresses/a1'']"
    "du_newImages remove_only_image = None"
    by (simp_all add: remove_only_image_def no_update_def)
  have kept: "filter (\<lambda>im. img_public_id im \<notin> set [''dresses/a1'']) (images gown) = []"
    by (simp add: gown_def)
  have empty: "filter (\<lambda>im. img_public_id im \<notin> set (from_field [] (du_removeImages remove_only_image)))
      (images gown) @ (case du_newImages remove_only_image of None \<Rightarrow> [] | Some l \<Rightarrow> l) = []"
    using kept body by (simp add: from_field_def)
  have calm: "first_failure calm_env (from_field [] (du_removeImages remove_only_image)) = None"
    using body by (simp add: from_field_def first_failure_def calm_env_def)
  show ?thesis
    using C4_empty_image_set_rejected [OF isObjectId_gown found body(1-5) empty, of calm_env]
      isObjectId_gown found body kept calm
    by simp
qed

section \<open>Properties: pagination\<close>

text \<open>
  For numeric parameters the clamps hold, and the first page of 12 over 30 matching
  dresses carries 12 items, total 30 and 3 pages.
\<close>

lemma pagination_numeric:
  "query_int 1 page = Some a \<Longrightarrow> query_int 12 limit = Some b \<Longrightarrow>
   pagination page limit =
     \<lparr>pageNum = Some (max 1 a), limitNum = Some (max 1 (min 50 b)),
      skip = Some ((max 1 a - 1) * max 1 (min 50 b))\<rparr>"
  by (simp add: pagination_def math_max_def math_min_def)

lemma pagination_bounds:
  assumes "query_int 1 page = Some a" and "query_int 12 limit = Some b"
  shows "\<exists>p l. pageNum (pagination page limit) = Some p \<and> 1 \<le> p \<and>
               limitNum (pagination page limit) = Some l \<and> 1 \<le> l \<and> l \<le> 50"
  using pagination_numeric [OF assms] by simp

lemma page_count_div:
  "0 < l \<Longrightarrow> page_count n (Some l) = Some (- ((- int n) div l))"
  using ceiling_divide_eq_div [of "int n" l]
  by (simp add: page_count_def)

lemma first_page_numbers:
  "pagination (Some ''1'') (Some ''12'') = \<lparr>pageNum = Some 1, limitNum = Some 12, skip = Some 0\<rparr>"
  by code_simp

lemma thirty_items:
  assumes "length m = 30" and "length (apply_sort ev srt m) = 30"
  shows "page_response ev msg info srt m (pagination (Some ''1'') (Some ''12'')) =
           Responded (Success 200
             \<lparr>pb_info = info, pb_count = 12, pb_total = 30, pb_page = Some 1,
              pb_pages = Some 3, pb_data = take 12 (apply_sort ev srt m)\<rparr>)"
  using assms page_count_div [of 12 30]
  by (simp add: page_response_def find_page_def first_page_numbers)

text \<open>
  Whatever the store does with a \<open>NaN\<close> skip, a non-numeric page never yields a
  response that reports a page number.
\<close>

lemma non_numeric_page_response:
  "page_response ev msg info srt m \<lparr>pageNum = None, limitNum = Some 12, skip = None\<rparr> =
     (case nan_page ev m of
        Inl e \<Rightarrow> Responded (Failure 500 msg (Some (err_message e)))
      | Inr ds \<Rightarrow>
          Responded (Success 200
            \<lparr>pb_info = info, pb_count = length ds, pb_total = length m, pb_page = None,
             pb_pages = page_count (length m) (Some 12), pb_data = ds\<rparr>))"
  by (simp add: page_response_def find_page_def split: sum.splits)

text \<open>
  Claim C5 at \<open>GET /dresses?page=abc\<close>. \<open>parseInt('abc')\<close> is \<open>NaN\<close> and
  \<open>Math.max(1, NaN)\<close> is \<open>NaN\<close>, so the effective page and the skip are \<open>NaN\<close>
  (and likewise the page size for \<open>limit=ten\<close>): the clamp misses the non-numeric
  case. The request then answers 500 when the store rejects the \<open>NaN\<close> skip, and
  otherwise reports \<open>page: NaN\<close>; in neither case is the effective page at least 1.
\<close>

theorem C5_non_numeric_page:
  "pagination (Some ''abc'') None = \<lparr>pageNum = None, limitNum = Some 12, skip = None\<rparr> \<and>
   limitNum (pagination None (Some ''ten'')) = None \<and>
   list_dresses calm_env shop abc_page =
     Some (Responded (Failure 500 ''Error fetching dresses'' (Some ''limit is not a number''))) \<and>
   list_dresses lenient_store shop abc_page =
     Some (Responded (Success 200
       \<lparr>pb_info = (), pb_count = 1, pb_total = 1, pb_page = None, pb_pages = Some 1,
        pb_data = [gown]\<rparr>))"
  by code_simp

section \<open>Properties: search\<close>

text \<open>
  For a query without metacharacters the compiled pattern matches exactly where the
  query occurs when case is ignored, and an empty query is rejected with 400.
\<close>

lemma is_plain_not_dot: "is_plain c \<Longrightarrow> c \<noteq> CHR ''.''"
  by (auto simp: is_plain_def is_meta_def split: if_splits)

lemma new_RegExp_plain: "list_all is_plain t \<Longrightarrow> new_RegExp t = Pattern (map Lit t)"
  by (auto simp: new_RegExp_def list_all_iff dest: is_plain_not_dot)

lemma matches_here_lits:
  "matches_here (map Lit q) s = starts_with (toLowerCase q) (toLowerCase s)"
  by (induction q s rule: starts_with.induct)
     (simp_all add: toLowerCase_def atom_matches_def)

lemma rx_test_lits: "rx_test (map Lit q) s = spec_ci_substring q s"
  unfolding spec_ci_substring_def
proof (induction s)
  case Nil
  then show ?case using matches_here_lits [of q "[]"] by (simp add: toLowerCase_def)
next
  case (Cons c cs)
  then show ?case using matches_here_lits [of q "c # cs"] by (simp add: toLowerCase_def)
qed

lemma search_matches_plain: "search_matches (map Lit t) d = spec_matches t d"
proof -
  have "rx_test (map Lit t) = spec_ci_substring t"
    by (rule ext) (rule rx_test_lits)
  then show ?thesis
    by (simp add: search_matches_def spec_matches_def cong: option.case_cong)
qed

lemma search_empty_query:
  "nonempty (sq_q q) = None \<Longrightarrow>
   search_dresses ev w q = Some (Responded (Failure 400 ''Search query (q) is required'' None))"
  by (simp add: search_dresses_def)

text \<open>
  Claim C6 at the queries \<open>a.c\<close> and \<open>(\<close>. The query text is compiled as a regular
  expression without escaping. The dot of \<open>a.c\<close> matches any character, so the dress
  named "Abc gown" is returned although \<open>a.c\<close> occurs in none of its fields; and
  \<open>(\<close> is not a valid pattern, so the search answers 500 instead of a result.
\<close>

theorem C6_query_is_a_pattern:
  "search_dresses calm_env shop (plain_search ''a.c'') =
     Some (Responded (Success 200
       \<lparr>pb_info = ''a.c'', pb_count = 1, pb_total = 1, pb_page = Some 1, pb_pages = Some 1,
        pb_data = [gown]\<rparr>)) \<and>
   \<not> spec_matches ''a.c'' gown \<and>
   search_dresses calm_env shop (plain_search ''('') =
     Some (Responded (Failure 500 ''Error searching dresses''
       (Some ''Invalid regular expression: Unterminated group'')))"
  by code_simp

section \<open>Properties: category-scoped listing\<close>

lemma by_category_uncastable:
  "\<not> isObjectId c \<Longrightarrow>
   get_dresses_by_category ev w c srt page limit =
     Responded (Failure 500 ''Error fetching dresses by category''
       (Some (err_message (cast_error ''_id'' c))))"
  by (simp add: get_dresses_by_category_def)

lemma by_category_not_found:
  "isObjectId c \<Longrightarrow>
   List.find (\<lambda>x. (cat_id x = toLowerCase c \<or> slug x = c) \<and> cat_isActive x) (categories w) = None \<Longrightarrow>
   get_dresses_by_category ev w c srt page limit =
     Responded (Failure 404 ''Category not found'' None)"
  by (simp add: get_dresses_by_category_def)

text \<open>
  Claim C7 at the slugs \<open>sarees\<close> (an active category of the shop) and \<open>kurtas\<close>
  (no such category). \<open>GET /dresses/category/:categoryId\<close> puts the parameter into an
  \<open>_id\<close> condition without testing its shape, the cast of a slug fails, and the
  request answers 500 in both cases: neither the scoped list nor 404.
  \<open>GET /category/:identifier\<close> tests the shape first and resolves the same slugs.
\<close>

theorem C7_slug_scoped_listing:
  "get_dresses_by_category calm_env shop ''sarees'' None None None =
     Responded (Failure 500 ''Error fetching dresses by category''
       (Some ''Cast to ObjectId failed for value sarees at path _id'')) \<and>
   get_category shop ''sarees'' = Responded (Success 200 sarees) \<and>
   get_dresses_by_category calm_env shop ''kurtas'' None None None =
     Responded (Failure 500 ''Error fetching dresses by category''
       (Some ''Cast to ObjectId failed for value kurtas at path _id'')) \<and>
   get_category shop ''kurtas'' = Responded (Failure 404 ''Category not found'' None)"
  by code_simp

end
